theory Spec2Isabelle
  imports Main
begin

section \<open>Outcomes of a call\<close>

text \<open>
  A C++ call either returns, leaves by an exception, or ends the program. The only
  exception of this part of the library is the shape-mismatch error that
  \<^verbatim>\<open>xt::broadcast_shape\<close> raises.
\<close>

datatype error = Broadcast_error

datatype 'a result = Returned 'a | Raised error | Terminated

text \<open>Sequencing of two calls: the second runs only when the first has returned.\<close>

fun and_then :: "'a result \<Rightarrow> ('a \<Rightarrow> 'b result) \<Rightarrow> 'b result" where
  "and_then (Returned v) f = f v"
| "and_then (Raised e) f = Raised e"
| "and_then Terminated f = Terminated"

text \<open>
  A function declared \<^verbatim>\<open>noexcept\<close>: an exception that would leave its body calls
  \<^verbatim>\<open>std::terminate\<close> instead of reaching the caller.
\<close>

fun noexcept :: "'a result \<Rightarrow> 'a result" where
  "noexcept (Returned v) = Returned v"
| "noexcept (Raised e) = Terminated"
| "noexcept Terminated = Terminated"

section \<open>The expression that is broadcast\<close>

text \<open>
  \<^verbatim>\<open>xbroadcast<E, X, LV>\<close> is a template over the type \<^verbatim>\<open>E\<close> of its child. What the class
  uses of \<^verbatim>\<open>E\<close> is a record of functions: \<^verbatim>\<open>shape()\<close>, \<^verbatim>\<open>operator()\<close>, \<^verbatim>\<open>operator[]\<close>,
  \<^verbatim>\<open>is_trivial_broadcast\<close>, \<^verbatim>\<open>stepper_begin\<close>, \<^verbatim>\<open>stepper_end\<close>, and the operations of the
  cursor type \<^verbatim>\<open>E::const_stepper\<close> (type \<open>'st\<close>). Shapes and multi-indices are lists of
  \<^verbatim>\<open>std::size_t\<close>, outermost dimension first; strides are lists of integers.

  Modelled from the spec: the operations of the cursor type, which \<^verbatim>\<open>xbroadcast.hpp\<close> only
  names. Section 4.3 of the specification: a cursor produces the current element of the
  expression (\<open>x_deref\<close>) and supports advance and reset per dimension (\<open>x_step\<close>,
  \<open>x_reset\<close>); \<open>x_to_end\<close> moves it to the position of the cursor that \<open>stepper_end\<close>
  returns, where an iteration stops.
\<close>

record ('a, 'st) xexpression =
  x_shape :: "nat list"
  x_call :: "nat list \<Rightarrow> 'a"
  x_index :: "nat list \<Rightarrow> 'a"
  x_is_trivial_broadcast :: "int list \<Rightarrow> bool"
  x_stepper_begin :: "nat list \<Rightarrow> 'st"
  x_stepper_end :: "nat list \<Rightarrow> 'st"
  x_deref :: "'st \<Rightarrow> 'a"
  x_step :: "'st \<Rightarrow> nat \<Rightarrow> 'st"
  x_reset :: "'st \<Rightarrow> nat \<Rightarrow> 'st"
  x_to_end :: "'st \<Rightarrow> 'st"

text \<open>
  \<^verbatim>\<open>dimension()\<close> of an expression is the size of its shape, as it is for the broadcast
  node itself (\<^verbatim>\<open>return m_shape.size()\<close>).
\<close>

definition x_dimension :: "('a, 'st) xexpression \<Rightarrow> nat" where
  "x_dimension e = length (x_shape e)"

section \<open>The broadcast node\<close>

text \<open>
  The member \<^verbatim>\<open>std::conditional_t<LV, const E&, E> m_e\<close>: a constant reference to the
  child when the template argument \<^verbatim>\<open>LV\<close> is true, a copy of it otherwise.
\<close>

datatype 'e closure = Const_reference 'e | Owned_copy 'e

fun referent :: "'e closure \<Rightarrow> 'e" where
  "referent (Const_reference e) = e"
| "referent (Owned_copy e) = e"

fun is_reference :: "'e closure \<Rightarrow> bool" where
  "is_reference (Const_reference e) = True"
| "is_reference (Owned_copy e) = False"

record ('a, 'st) xbroadcast =
  m_e :: "('a, 'st) xexpression closure"
  m_shape :: "nat list"

definition child :: "('a, 'st) xbroadcast \<Rightarrow> ('a, 'st) xexpression" where
  "child n = referent (m_e n)"

subsection \<open>Shape reconciliation\<close>

text \<open>The pairs of extents of two shapes, aligned from the trailing dimension.\<close>

definition aligned_pairs :: "nat list \<Rightarrow> nat list \<Rightarrow> (nat \<times> nat) list" where
  "aligned_pairs src tgt = zip (rev src) (rev tgt)"

text \<open>
  Section 4.1 of the specification: a source shape of rank \<open>r\<close> broadcasts to a target
  shape of rank \<open>n \<ge> r\<close> when every aligned pair \<open>(s, t)\<close> has \<open>s = 1\<close> or \<open>s = t\<close>.
\<close>

definition broadcastable :: "nat list \<Rightarrow> nat list \<Rightarrow> bool" where
  "broadcastable src tgt =
     (length src \<le> length tgt \<and>
      list_all (\<lambda>(s, t). s = 1 \<or> s = t) (aligned_pairs src tgt))"

text \<open>
  Modelled from the spec: \<^verbatim>\<open>xt::broadcast_shape(input, output)\<close> of \<^verbatim>\<open>xutils.hpp\<close>, which
  is not among the sources. Section 4.1 of the specification: source and target are
  aligned from the trailing dimension, the source padded on the left with extents 1;
  an aligned pair \<open>(d_s, d_t)\<close> with \<open>d_s = 1\<close> is stretched to \<open>d_t\<close>, and one with
  \<open>d_s = d_t\<close> passes through unchanged: both leave the target extent as it is.
  Dimensions present only in the target are kept as they are. The algorithm writes to
  the target where the source requires a strictly larger value: under the NumPy-style
  rules that section 1 names, that is a target extent of 1 aligned with a larger
  source extent, which becomes the source extent. Every other pair with \<open>d_s \<noteq> d_t\<close>
  and \<open>d_s \<noteq> 1\<close> raises the shape-mismatch error, at once. The rule is stated for a
  target of rank \<open>n \<ge> r\<close>; a source of higher rank cannot be reconciled with the target
  (section 7: the error is raised when the rule cannot reconcile the two shapes;
  section 3: the rank of a node is never below that of its child) and raises as well.

  \<open>reconcile\<close> works on the reversed shapes, trailing dimension first. Only the target
  shape after a return is modelled: the constructor of the node discards the boolean
  that the function returns, and nothing reads the target after a raise.
\<close>

fun reconcile :: "nat list \<Rightarrow> nat list \<Rightarrow> nat list result" where
  "reconcile [] ts = Returned ts"
| "reconcile (s # ss) [] = Raised Broadcast_error"
| "reconcile (s # ss) (t # ts) =
     (if s = 1 then and_then (reconcile ss ts) (\<lambda>r. Returned (t # r))
      else if s = t then and_then (reconcile ss ts) (\<lambda>r. Returned (t # r))
      else if t = 1 \<and> 1 < s then and_then (reconcile ss ts) (\<lambda>r. Returned (s # r))
      else Raised Broadcast_error)"

definition xt_broadcast_shape :: "nat list \<Rightarrow> nat list \<Rightarrow> nat list result" where
  "xt_broadcast_shape input output =
     and_then (reconcile (rev input) (rev output)) (\<lambda>r. Returned (rev r))"

subsection \<open>Construction\<close>

text \<open>
  \<^verbatim>\<open>xbroadcast(const E& e, S s) noexcept : m_e(e), m_shape(std::move(s))\<close> with the body
  \<^verbatim>\<open>xt::broadcast_shape(e.shape(), m_shape)\<close>: the requested shape is stored and then
  reconciled in place with the shape of the child.
\<close>

definition xbroadcast_ctor ::
  "bool \<Rightarrow> ('a, 'st) xexpression \<Rightarrow> nat list \<Rightarrow> ('a, 'st) xbroadcast result" where
  "xbroadcast_ctor LV e s =
     noexcept (and_then (xt_broadcast_shape (x_shape e) s)
       (\<lambda>s'. Returned \<lparr>m_e = (if LV then Const_reference e else Owned_copy e),
                        m_shape = s'\<rparr>))"

text \<open>
  \<^verbatim>\<open>detail::forward_shape\<close>: the requested shape converted to the shape type of the node.
  Each of the three specialisations of \<^verbatim>\<open>shape_forwarder\<close> yields the same sequence of
  extents (a copy from the range of the argument, a copy of the initializer list, or
  the argument itself).
\<close>

definition forward_shape :: "nat list \<Rightarrow> nat list" where
  "forward_shape s = s"

text \<open>
  The two factory functions. The value category of the argument \<^verbatim>\<open>e\<close> is a parameter:
  \<^verbatim>\<open>std::is_lvalue_reference<decltype(e)>::value\<close> is true exactly for an lvalue. The
  overload for an initializer list instantiates \<^verbatim>\<open>xbroadcast<..., false>\<close>.
\<close>

datatype value_category = Lvalue | Rvalue

definition broadcast ::
  "value_category \<Rightarrow> ('a, 'st) xexpression \<Rightarrow> nat list \<Rightarrow> ('a, 'st) xbroadcast result" where
  "broadcast vc e s =
     (let is_lvalue = (vc = Lvalue) in xbroadcast_ctor is_lvalue e (forward_shape s))"

definition broadcast_initializer_list ::
  "value_category \<Rightarrow> ('a, 'st) xexpression \<Rightarrow> nat list \<Rightarrow> ('a, 'st) xbroadcast result" where
  "broadcast_initializer_list vc e s = xbroadcast_ctor False e (forward_shape s)"

subsection \<open>Size, shape and element access\<close>

definition dimension :: "('a, 'st) xbroadcast \<Rightarrow> nat" where
  "dimension n = length (m_shape n)"

definition shape :: "('a, 'st) xbroadcast \<Rightarrow> nat list" where
  "shape n = m_shape n"

text \<open>
  \<^verbatim>\<open>operator()(Args... args)\<close> returns \<^verbatim>\<open>detail::get_element(m_e, args...)\<close>. The helper
  \<^verbatim>\<open>get_element\<close> of \<^verbatim>\<open>xutils.hpp\<close> is not among the sources and is a parameter here.
  \<^verbatim>\<open>operator[](const xindex& index)\<close> returns \<^verbatim>\<open>m_e[index]\<close>.
\<close>

definition call_operator ::
  "(('a, 'st) xexpression \<Rightarrow> nat list \<Rightarrow> 'a) \<Rightarrow> ('a, 'st) xbroadcast \<Rightarrow> nat list \<Rightarrow> 'a" where
  "call_operator get_element n args = get_element (child n) args"

definition index_operator :: "('a, 'st) xbroadcast \<Rightarrow> nat list \<Rightarrow> 'a" where
  "index_operator n index = x_index (child n) index"

subsection \<open>Broadcasting the shape of the node\<close>

text \<open>
  \<^verbatim>\<open>bool broadcast_shape(S& shape) const\<close> returns \<^verbatim>\<open>xt::broadcast_shape(m_shape, shape)\<close>:
  the shape of the node is the input and the shape of the caller the output. What the
  call yields, the boolean included, is the helper's; the helper is a parameter here.
\<close>

definition broadcast_shape ::
  "(nat list \<Rightarrow> nat list \<Rightarrow> 'r) \<Rightarrow> ('a, 'st) xbroadcast \<Rightarrow> nat list \<Rightarrow> 'r" where
  "broadcast_shape helper n s = helper (m_shape n) s"

subsection \<open>Trivial broadcasting\<close>

text \<open>
  \<^verbatim>\<open>std::equal(first1, last1, first2)\<close>: the first range compared element by element
  with the range that starts at \<^verbatim>\<open>first2\<close>. A second range shorter than the first is
  outside the precondition of \<^verbatim>\<open>std::equal\<close>; \<open>is_trivial_broadcast\<close> compares the
  dimensions first, so that case is not reached from it.
\<close>

fun std_equal :: "'a list \<Rightarrow> 'a list \<Rightarrow> bool" where
  "std_equal [] ys = True"
| "std_equal (x # xs) (y # ys) = (x = y \<and> std_equal xs ys)"
| "std_equal (x # xs) [] = False"

definition is_trivial_broadcast :: "('a, 'st) xbroadcast \<Rightarrow> int list \<Rightarrow> bool" where
  "is_trivial_broadcast n strides =
     (dimension n = x_dimension (child n) \<and>
      std_equal (m_shape n) (x_shape (child n)) \<and>
      x_is_trivial_broadcast (child n) strides)"

subsection \<open>Steppers and iterators\<close>

text \<open>
  \<^verbatim>\<open>using const_stepper = typename E::const_stepper\<close>: the cursor of the node has the
  type \<open>'st\<close> of the cursor of its child.
\<close>

definition stepper_begin :: "('a, 'st) xbroadcast \<Rightarrow> nat list \<Rightarrow> 'st" where
  "stepper_begin n s = x_stepper_begin (child n) s"

definition stepper_end :: "('a, 'st) xbroadcast \<Rightarrow> nat list \<Rightarrow> 'st" where
  "stepper_end n s = x_stepper_end (child n) s"

text \<open>
  Modelled from the spec: the class \<^verbatim>\<open>xiterator\<close> of \<^verbatim>\<open>xiterator.hpp\<close>, which is not among
  the sources. \<^verbatim>\<open>xiterator<const_stepper, S>(stepper, shape)\<close> is the pair of the two
  arguments it is constructed from: a cursor and the shape to iterate over (section
  4.2 of the specification: a cursor over the requested shape).
\<close>

record 'st xiterator =
  it_stepper :: 'st
  it_shape :: "nat list"

definition xbegin :: "('a, 'st) xbroadcast \<Rightarrow> nat list \<Rightarrow> 'st xiterator" where
  "xbegin n s = \<lparr>it_stepper = stepper_begin n s, it_shape = s\<rparr>"

definition xend :: "('a, 'st) xbroadcast \<Rightarrow> nat list \<Rightarrow> 'st xiterator" where
  "xend n s = \<lparr>it_stepper = stepper_end n s, it_shape = s\<rparr>"

definition cxbegin :: "('a, 'st) xbroadcast \<Rightarrow> nat list \<Rightarrow> 'st xiterator" where
  "cxbegin n s = \<lparr>it_stepper = stepper_begin n s, it_shape = s\<rparr>"

definition cxend :: "('a, 'st) xbroadcast \<Rightarrow> nat list \<Rightarrow> 'st xiterator" where
  "cxend n s = \<lparr>it_stepper = stepper_end n s, it_shape = s\<rparr>"

definition xbroadcast_begin :: "('a, 'st) xbroadcast \<Rightarrow> 'st xiterator" where
  "xbroadcast_begin n = cxbegin n (shape n)"

definition xbroadcast_end :: "('a, 'st) xbroadcast \<Rightarrow> 'st xiterator" where
  "xbroadcast_end n = cxend n (shape n)"

definition xbroadcast_cbegin :: "('a, 'st) xbroadcast \<Rightarrow> 'st xiterator" where
  "xbroadcast_cbegin n = cxbegin n (shape n)"

definition xbroadcast_cend :: "('a, 'st) xbroadcast \<Rightarrow> 'st xiterator" where
  "xbroadcast_cend n = cxend n (shape n)"

definition storage_begin :: "('a, 'st) xbroadcast \<Rightarrow> 'st xiterator" where
  "storage_begin n = xbroadcast_cbegin n"

definition storage_end :: "('a, 'st) xbroadcast \<Rightarrow> 'st xiterator" where
  "storage_end n = xbroadcast_cend n"

definition storage_cbegin :: "('a, 'st) xbroadcast \<Rightarrow> 'st xiterator" where
  "storage_cbegin n = xbroadcast_cbegin n"

definition storage_cend :: "('a, 'st) xbroadcast \<Rightarrow> 'st xiterator" where
  "storage_cend n = xbroadcast_cend n"

text \<open>
  A broadcast node is itself an expression and can be the child of another node: its
  members in the form of the record above. Its cursor operations are those of its
  child, since its cursor type is the child's.
\<close>

definition as_expression ::
  "(('a, 'st) xexpression \<Rightarrow> nat list \<Rightarrow> 'a) \<Rightarrow> ('a, 'st) xbroadcast \<Rightarrow> ('a, 'st) xexpression" where
  "as_expression get_element n =
     \<lparr>x_shape = shape n,
      x_call = call_operator get_element n,
      x_index = index_operator n,
      x_is_trivial_broadcast = is_trivial_broadcast n,
      x_stepper_begin = stepper_begin n,
      x_stepper_end = stepper_end n,
      x_deref = x_deref (child n),
      x_step = x_step (child n),
      x_reset = x_reset (child n),
      x_to_end = x_to_end (child n)\<rparr>"

section \<open>Iteration\<close>

text \<open>
  Modelled from the spec: what \<^verbatim>\<open>xiterator\<close> (\<^verbatim>\<open>xiterator.hpp\<close>, not among the sources) does
  between \<open>begin\<close> and \<open>end\<close>. Sections 4.2 and 4.3 of the specification: the iterator
  drives a cursor of the child over the iteration shape in row-major order, the last
  dimension varying fastest, by advancing and resetting the cursor per dimension.

  \<open>increment\<close> is one \<^verbatim>\<open>++it\<close>. The iterator counts its index in every dimension. It looks
  for the last dimension whose index can still grow, advances the cursor along it, and
  on the way there sets the index of each exhausted dimension back to 0 and resets
  the cursor along it. When every dimension is exhausted the cursor moves to its end
  position. The first three arguments are the operations of the cursor, the fourth is
  the iteration shape, the fifth the number of dimensions still to look at.
\<close>

fun increment ::
  "('st \<Rightarrow> nat \<Rightarrow> 'st) \<Rightarrow> ('st \<Rightarrow> nat \<Rightarrow> 'st) \<Rightarrow> ('st \<Rightarrow> 'st) \<Rightarrow>
   nat list \<Rightarrow> nat \<Rightarrow> 'st \<Rightarrow> nat list \<Rightarrow> 'st \<times> nat list" where
  "increment step reset to_end shp 0 c idx = (to_end c, idx)"
| "increment step reset to_end shp (Suc i) c idx =
     (if Suc (idx ! i) < shp ! i then (step c i, idx[i := Suc (idx ! i)])
      else increment step reset to_end shp i (reset c i) (idx[i := 0]))"

text \<open>
  Modelled from the spec: the loop \<^verbatim>\<open>for (it = first; it != stop; ++it)\<close> that collects
  \<^verbatim>\<open>*it\<close>. Two iterators are equal when their cursors and their shapes are. The loop
  need not end: \<open>None\<close> is an iteration that never meets \<open>stop\<close>.
\<close>

partial_function (option) drain ::
  "('st \<Rightarrow> 'a) \<Rightarrow> ('st \<Rightarrow> nat \<Rightarrow> 'st) \<Rightarrow> ('st \<Rightarrow> nat \<Rightarrow> 'st) \<Rightarrow> ('st \<Rightarrow> 'st) \<Rightarrow>
   nat list \<Rightarrow> 'st xiterator \<Rightarrow> 'st \<Rightarrow> nat list \<Rightarrow> 'a list option"
  where
  "drain deref step reset to_end shp stop c idx =
     (if \<lparr>it_stepper = c, it_shape = shp\<rparr> = stop then Some []
      else case increment step reset to_end shp (length shp) c idx of
             (c', idx') \<Rightarrow>
               Option.bind (drain deref step reset to_end shp stop c' idx')
                 (\<lambda>xs. Some (deref c # xs)))"

text \<open>
  The iteration from the iterator \<open>first\<close> to the iterator \<open>stop\<close> with the cursor
  operations of the expression \<open>e\<close>; the index of a fresh iterator is 0 in every
  dimension.
\<close>

definition iterate ::
  "('a, 'st) xexpression \<Rightarrow> 'st xiterator \<Rightarrow> 'st xiterator \<Rightarrow> 'a list option" where
  "iterate e first stop =
     drain (x_deref e) (x_step e) (x_reset e) (x_to_end e) (it_shape first) stop
       (it_stepper first) (replicate (length (it_shape first)) 0)"

text \<open>The elements met from \<open>begin()\<close> to \<open>end()\<close>, and from \<open>xbegin(s)\<close> to \<open>xend(s)\<close>.\<close>

definition elements :: "('a, 'st) xbroadcast \<Rightarrow> 'a list option" where
  "elements n = iterate (child n) (xbroadcast_begin n) (xbroadcast_end n)"

definition elements_over :: "('a, 'st) xbroadcast \<Rightarrow> nat list \<Rightarrow> 'a list option" where
  "elements_over n s = iterate (child n) (xbegin n s) (xend n s)"

text \<open>
  The elements of an expression iterated in its own shape with its own cursors, from
  the cursor of \<open>stepper_begin\<close> to the cursor of \<open>stepper_end\<close>.
\<close>

definition own_elements :: "('a, 'st) xexpression \<Rightarrow> 'a list option" where
  "own_elements e =
     iterate e \<lparr>it_stepper = x_stepper_begin e (x_shape e), it_shape = x_shape e\<rparr>
       \<lparr>it_stepper = x_stepper_end e (x_shape e), it_shape = x_shape e\<rparr>"

section \<open>A storage-backed child\<close>

text \<open>
  Modelled from the spec: a dense container with its cursor (\<^verbatim>\<open>xarray\<close> and its stepper;
  \<^verbatim>\<open>xarray.hpp\<close> and \<^verbatim>\<open>xiterator.hpp\<close> are not among the sources). Sections 3, 4.3 and the
  glossary of the specification: the elements lie in linear storage in row-major
  order; the stride of a dimension is the linear step per index, and zero for a
  dimension of extent 1. A cursor over an iteration shape holds a position in the
  storage. Advancing along a dimension of the container moves it by the stride, and
  resetting along it moves it back by the stride times the last index of the
  dimension; along a leading dimension that only the iteration shape has, the cursor
  keeps its position. The end position is one past the last stored element. Reading
  outside the storage yields \<open>None\<close>.
\<close>

record 'a xstepper =
  sp_data :: "'a list"
  sp_strides :: "nat list"
  sp_backstrides :: "nat list"
  sp_offset :: nat
  sp_pos :: nat

fun row_major_strides :: "nat list \<Rightarrow> nat list" where
  "row_major_strides [] = []"
| "row_major_strides (n # ns) = (if n = 1 then 0 else prod_list ns) # row_major_strides ns"

definition row_major_backstrides :: "nat list \<Rightarrow> nat list" where
  "row_major_backstrides shp = map (\<lambda>(n, s). (n - 1) * s) (zip shp (row_major_strides shp))"

definition stride_of :: "nat list \<Rightarrow> nat \<Rightarrow> nat" where
  "stride_of strides k = (if k < length strides then strides ! k else 0)"

definition read_at :: "'a list \<Rightarrow> nat \<Rightarrow> 'a option" where
  "read_at dat p = (if p < length dat then Some (dat ! p) else None)"

definition xstepper_deref :: "'a xstepper \<Rightarrow> 'a option" where
  "xstepper_deref c = read_at (sp_data c) (sp_pos c)"

definition xstepper_step :: "'a xstepper \<Rightarrow> nat \<Rightarrow> 'a xstepper" where
  "xstepper_step c d =
     (if d < sp_offset c then c
      else c\<lparr>sp_pos := sp_pos c + stride_of (sp_strides c) (d - sp_offset c)\<rparr>)"

definition xstepper_reset :: "'a xstepper \<Rightarrow> nat \<Rightarrow> 'a xstepper" where
  "xstepper_reset c d =
     (if d < sp_offset c then c
      else c\<lparr>sp_pos := sp_pos c - stride_of (sp_backstrides c) (d - sp_offset c)\<rparr>)"

definition xstepper_to_end :: "'a xstepper \<Rightarrow> 'a xstepper" where
  "xstepper_to_end c = c\<lparr>sp_pos := length (sp_data c)\<rparr>"

definition data_offset :: "nat list \<Rightarrow> nat list \<Rightarrow> nat" where
  "data_offset strides index =
     sum_list (map (\<lambda>(i, s). i * s) (zip (rev index) (rev strides)))"

definition xarray_stepper :: "nat list \<Rightarrow> 'a list \<Rightarrow> nat list \<Rightarrow> nat \<Rightarrow> 'a xstepper" where
  "xarray_stepper shp dat s p =
     \<lparr>sp_data = dat, sp_strides = row_major_strides shp,
      sp_backstrides = row_major_backstrides shp,
      sp_offset = length s - length shp, sp_pos = p\<rparr>"

definition xarray :: "nat list \<Rightarrow> 'a list \<Rightarrow> ('a option, 'a xstepper) xexpression" where
  "xarray shp dat =
     \<lparr>x_shape = shp,
      x_call = (\<lambda>args. read_at dat (data_offset (row_major_strides shp) args)),
      x_index = (\<lambda>index. read_at dat (data_offset (row_major_strides shp) index)),
      x_is_trivial_broadcast = (\<lambda>strides. strides = map int (row_major_strides shp)),
      x_stepper_begin = (\<lambda>s. xarray_stepper shp dat s 0),
      x_stepper_end = (\<lambda>s. xarray_stepper shp dat s (length dat)),
      x_deref = xstepper_deref,
      x_step = xstepper_step,
      x_reset = xstepper_reset,
      x_to_end = xstepper_to_end\<rparr>"

text \<open>
  The position of a multi-index in row-major storage: the index of dimension \<open>i\<close> counts
  \<open>weight shp (Suc i)\<close> elements, the product of the extents behind it. A multi-index is
  valid for a shape when it has one index per dimension, each below the extent.
\<close>

definition weight :: "nat list \<Rightarrow> nat \<Rightarrow> nat" where
  "weight shp i = prod_list (drop i shp)"

definition linear_index :: "nat list \<Rightarrow> nat list \<Rightarrow> nat" where
  "linear_index shp idx = (\<Sum>i<length shp. idx ! i * weight shp (Suc i))"

definition valid_index :: "nat list \<Rightarrow> nat list \<Rightarrow> bool" where
  "valid_index shp idx = (length idx = length shp \<and> (\<forall>i<length shp. idx ! i < shp ! i))"

section \<open>Shape reconciliation and construction\<close>

lemma reconcile_longer_source:
  "length ts < length ss \<Longrightarrow> reconcile ss ts = Raised Broadcast_error"
proof (induction ss arbitrary: ts)
  case Nil
  then show ?case by simp
next
  case (Cons s ss)
  show ?case
  proof (cases ts)
    case Nil
    then show ?thesis by simp
  next
    case (Cons t ts')
    with Cons.prems have "reconcile ss ts' = Raised Broadcast_error"
      by (intro Cons.IH) simp
    with Cons show ?thesis by simp
  qed
qed

lemma reconcile_compatible:
  "length ss \<le> length ts \<Longrightarrow> \<forall>(s, t)\<in>set (zip ss ts). s = 1 \<or> s = t \<Longrightarrow>
   reconcile ss ts = Returned ts"
proof (induction ss arbitrary: ts)
  case Nil
  then show ?case by simp
next
  case (Cons s ss)
  then obtain t ts' where ts: "ts = t # ts'" by (cases ts) auto
  with Cons.prems have "reconcile ss ts' = Returned ts'"
    by (intro Cons.IH) simp_all
  moreover from Cons.prems ts have "s = 1 \<or> s = t" by simp
  ultimately show ?case using ts by auto
qed

lemma reconcile_mismatch:
  "\<exists>(s, t)\<in>set (zip ss ts). s \<noteq> 1 \<and> s \<noteq> t \<and> t \<noteq> 1 \<Longrightarrow>
   reconcile ss ts = Raised Broadcast_error"
proof (induction ss arbitrary: ts)
  case Nil
  then show ?case by simp
next
  case (Cons s ss)
  then obtain t ts' where ts: "ts = t # ts'" by (cases ts) auto
  show ?case
  proof (cases "s \<noteq> 1 \<and> s \<noteq> t \<and> t \<noteq> 1")
    case True
    with ts show ?thesis by simp
  next
    case False
    with Cons.prems ts have "\<exists>(s, t)\<in>set (zip ss ts'). s \<noteq> 1 \<and> s \<noteq> t \<and> t \<noteq> 1" by auto
    then have "reconcile ss ts' = Raised Broadcast_error" by (rule Cons.IH)
    with ts show ?thesis by simp
  qed
qed

lemma reconcile_returned:
  "reconcile ss ts = Returned r \<Longrightarrow> length ss \<le> length ts \<and> length r = length ts"
proof (induction ss arbitrary: ts r)
  case Nil
  then show ?case by simp
next
  case (Cons s ss)
  then obtain t ts' where ts: "ts = t # ts'" by (cases ts) auto
  with Cons.prems obtain r' where r': "reconcile ss ts' = Returned r'"
    and r: "length r = Suc (length r')"
    by (cases "reconcile ss ts'") (auto split: if_splits)
  from Cons.IH [OF r'] r ts show ?case by simp
qed

lemma xt_broadcast_shape_compatible:
  "length src \<le> length tgt \<Longrightarrow> \<forall>(s, t)\<in>set (aligned_pairs src tgt). s = 1 \<or> s = t \<Longrightarrow>
   xt_broadcast_shape src tgt = Returned tgt"
  by (simp add: xt_broadcast_shape_def aligned_pairs_def reconcile_compatible)

lemma xt_broadcast_shape_longer_source:
  "length tgt < length src \<Longrightarrow> xt_broadcast_shape src tgt = Raised Broadcast_error"
  by (simp add: xt_broadcast_shape_def reconcile_longer_source)

lemma xt_broadcast_shape_mismatch:
  "\<exists>(s, t)\<in>set (aligned_pairs src tgt). s \<noteq> 1 \<and> s \<noteq> t \<and> t \<noteq> 1 \<Longrightarrow>
   xt_broadcast_shape src tgt = Raised Broadcast_error"
  by (simp add: xt_broadcast_shape_def aligned_pairs_def reconcile_mismatch)

lemma xt_broadcast_shape_returned:
  "xt_broadcast_shape src tgt = Returned r \<Longrightarrow>
   length src \<le> length tgt \<and> length r = length tgt"
  by (cases "reconcile (rev src) (rev tgt)")
     (auto simp: xt_broadcast_shape_def dest: reconcile_returned)

text \<open>
  A target extent of 1 under a larger source extent is overwritten; a pair of two
  different extents that are both not 1 raises, and so does a source of higher rank.
\<close>

lemma xt_broadcast_shape_instances:
  "xt_broadcast_shape [3] [1] = Returned [3]"
  "xt_broadcast_shape [1, 3] [4, 2, 3] = Returned [4, 2, 3]"
  "xt_broadcast_shape [3] [2] = Raised Broadcast_error"
  "xt_broadcast_shape [2, 3] [3] = Raised Broadcast_error"
  by (simp_all add: xt_broadcast_shape_def)

lemma ctor_compatible:
  "length (x_shape e) \<le> length T \<Longrightarrow>
   \<forall>(s, t)\<in>set (aligned_pairs (x_shape e) T). s = 1 \<or> s = t \<Longrightarrow>
   xbroadcast_ctor LV e T =
     Returned \<lparr>m_e = (if LV then Const_reference e else Owned_copy e), m_shape = T\<rparr>"
  by (simp add: xbroadcast_ctor_def xt_broadcast_shape_compatible)

lemma ctor_mismatch:
  "\<exists>(s, t)\<in>set (aligned_pairs (x_shape e) T). s \<noteq> 1 \<and> s \<noteq> t \<and> t \<noteq> 1 \<Longrightarrow>
   xbroadcast_ctor LV e T = Terminated"
  by (simp add: xbroadcast_ctor_def xt_broadcast_shape_mismatch)

lemma ctor_returned:
  assumes "xbroadcast_ctor LV e T = Returned n"
  shows "m_e n = (if LV then Const_reference e else Owned_copy e)"
    and "xt_broadcast_shape (x_shape e) T = Returned (m_shape n)"
proof -
  show "m_e n = (if LV then Const_reference e else Owned_copy e)"
    using assms by (cases "xt_broadcast_shape (x_shape e) T") (auto simp: xbroadcast_ctor_def)
  show "xt_broadcast_shape (x_shape e) T = Returned (m_shape n)"
    using assms by (cases "xt_broadcast_shape (x_shape e) T") (auto simp: xbroadcast_ctor_def)
qed

text \<open>
  The constructor never lets an exception out, whatever its body does: it returns a
  node or ends the program. Neither factory function adds a raise of its own.
\<close>

lemma noexcept_never_raises: "noexcept r \<noteq> Raised err"
  by (cases r) simp_all

lemma ctor_never_raises: "xbroadcast_ctor LV e T \<noteq> Raised err"
  by (simp add: xbroadcast_ctor_def noexcept_never_raises)

lemma broadcast_never_raises:
  "broadcast vc e T \<noteq> Raised err"
  "broadcast_initializer_list vc e T \<noteq> Raised err"
  by (simp_all add: broadcast_def broadcast_initializer_list_def ctor_never_raises)

text \<open>
  The member \<open>broadcast_shape\<close> is not \<^verbatim>\<open>noexcept\<close>: over the reconciliation above it
  hands back the caller's shape when the shape of the node is compatible with it, and
  lets the error through on a mismatch. The node is an argument only.
\<close>

lemma member_broadcast_shape:
  "length (m_shape n) \<le> length T \<Longrightarrow>
   (\<forall>(s, t)\<in>set (aligned_pairs (m_shape n) T). s = 1 \<or> s = t) \<Longrightarrow>
   broadcast_shape xt_broadcast_shape n T = Returned T"
  "(\<exists>(s, t)\<in>set (aligned_pairs (m_shape n) T). s \<noteq> 1 \<and> s \<noteq> t \<and> t \<noteq> 1) \<Longrightarrow>
   broadcast_shape xt_broadcast_shape n T = Raised Broadcast_error"
  by (simp_all add: broadcast_shape_def xt_broadcast_shape_compatible
      xt_broadcast_shape_mismatch)

text \<open>
  Every node that a factory function returns holds the expression it was given, has
  the rank of the requested shape, and has at least the rank of its child.
\<close>

lemma broadcast_returned:
  assumes "broadcast vc e T = Returned n"
  shows "child n = e" and "is_reference (m_e n) = (vc = Lvalue)"
    and "dimension n = length T" and "x_dimension (child n) \<le> dimension n"
proof -
  from assms have c: "xbroadcast_ctor (vc = Lvalue) e T = Returned n"
    by (simp add: broadcast_def forward_shape_def)
  from ctor_returned(1) [OF c] show "child n = e" and "is_reference (m_e n) = (vc = Lvalue)"
    by (simp_all add: child_def)
  with xt_broadcast_shape_returned [OF ctor_returned(2) [OF c]]
  show "dimension n = length T" and "x_dimension (child n) \<le> dimension n"
    by (simp_all add: dimension_def x_dimension_def)
qed

lemma broadcast_initializer_list_returned:
  assumes "broadcast_initializer_list vc e T = Returned n"
  shows "child n = e" and "\<not> is_reference (m_e n)"
    and "dimension n = length T" and "x_dimension (child n) \<le> dimension n"
proof -
  from assms have c: "xbroadcast_ctor False e T = Returned n"
    by (simp add: broadcast_initializer_list_def forward_shape_def)
  from ctor_returned(1) [OF c] show "child n = e" and "\<not> is_reference (m_e n)"
    by (simp_all add: child_def)
  with xt_broadcast_shape_returned [OF ctor_returned(2) [OF c]]
  show "dimension n = length T" and "x_dimension (child n) \<le> dimension n"
    by (simp_all add: dimension_def x_dimension_def)
qed

lemma broadcast_compatible:
  "length (x_shape e) \<le> length T \<Longrightarrow>
   \<forall>(s, t)\<in>set (aligned_pairs (x_shape e) T). s = 1 \<or> s = t \<Longrightarrow>
   \<exists>n. broadcast vc e T = Returned n \<and> child n = e \<and> m_shape n = T"
  by (simp add: broadcast_def forward_shape_def ctor_compatible child_def)

lemma broadcast_initializer_list_compatible:
  "length (x_shape e) \<le> length T \<Longrightarrow>
   \<forall>(s, t)\<in>set (aligned_pairs (x_shape e) T). s = 1 \<or> s = t \<Longrightarrow>
   \<exists>n. broadcast_initializer_list vc e T = Returned n \<and> child n = e \<and> m_shape n = T"
  by (simp add: broadcast_initializer_list_def forward_shape_def ctor_compatible child_def)

lemma broadcast_incompatible:
  assumes "\<exists>(s, t)\<in>set (aligned_pairs (x_shape e) T). s \<noteq> 1 \<and> s \<noteq> t \<and> t \<noteq> 1"
  shows "xt_broadcast_shape (x_shape e) T = Raised Broadcast_error"
    and "broadcast vc e T = Terminated"
    and "broadcast_initializer_list vc e T = Terminated"
  using assms
  by (simp_all add: xt_broadcast_shape_mismatch broadcast_def broadcast_initializer_list_def
      forward_shape_def ctor_mismatch)

lemma xarray_simps [simp]:
  "x_shape (xarray shp dat) = shp"
  "x_step (xarray shp dat) = xstepper_step"
  "x_reset (xarray shp dat) = xstepper_reset"
  "x_to_end (xarray shp dat) = xstepper_to_end"
  "x_deref (xarray shp dat) = xstepper_deref"
  "x_stepper_begin (xarray shp dat) s = xarray_stepper shp dat s 0"
  "x_stepper_end (xarray shp dat) s = xarray_stepper shp dat s (length dat)"
  by (simp_all add: xarray_def)

text \<open>
  C1. When the requested shape \<open>T\<close> has at least the rank of the shape of the child and
  every trailing-aligned pair \<open>(s, t)\<close> of the two has \<open>s = 1\<close> or \<open>s = t\<close>, both overloads
  of \<open>broadcast\<close> return a node whose \<open>shape()\<close> is \<open>T\<close> and whose \<open>dimension()\<close> is the
  length of \<open>T\<close>. The node is a value that no member function changes (all of them are
  \<^verbatim>\<open>const\<close>), so the shape stays what it is at construction.
\<close>

theorem broadcast_shape_is_target:
  assumes "length (x_shape e) \<le> length T"
    and "\<forall>(s, t)\<in>set (aligned_pairs (x_shape e) T). s = 1 \<or> s = t"
  shows "(\<exists>n. broadcast vc e T = Returned n \<and> shape n = T \<and> dimension n = length T) \<and>
         (\<exists>n. broadcast_initializer_list vc e T = Returned n \<and>
              shape n = T \<and> dimension n = length T)"
proof
  from broadcast_compatible [OF assms]
  obtain n where "broadcast vc e T = Returned n" and "m_shape n = T"
    by auto
  then show "\<exists>n. broadcast vc e T = Returned n \<and> shape n = T \<and> dimension n = length T"
    by (intro exI [of _ n]) (simp add: shape_def dimension_def)
next
  from broadcast_initializer_list_compatible [OF assms]
  obtain n where "broadcast_initializer_list vc e T = Returned n" and "m_shape n = T"
    by auto
  then show "\<exists>n. broadcast_initializer_list vc e T = Returned n \<and>
                 shape n = T \<and> dimension n = length T"
    by (intro exI [of _ n]) (simp add: shape_def dimension_def)
qed

text \<open>
  An instance with a stretched dimension and a dimension that only the target has: a
  child of shape \<open>(1, 3)\<close> and the target \<open>(4, 2, 3)\<close>, with the aligned pairs \<open>(3, 3)\<close> and
  \<open>(1, 2)\<close>.
\<close>

theorem broadcast_shape_is_target_witness:
  "(\<exists>n. broadcast Lvalue (xarray [1, 3] [2, 3, 1 :: int]) [4, 2, 3] = Returned n \<and>
        shape n = [4, 2, 3] \<and> dimension n = 3) \<and>
   (\<exists>n. broadcast_initializer_list Lvalue (xarray [1, 3] [2, 3, 1 :: int]) [4, 2, 3] =
          Returned n \<and>
        shape n = [4, 2, 3] \<and> dimension n = 3)"
proof -
  have r: "length (x_shape (xarray [1, 3] [2, 3, 1 :: int])) \<le> length [4, 2, 3 :: nat]"
    by simp
  have h: "\<forall>(s, t)\<in>set (aligned_pairs (x_shape (xarray [1, 3] [2, 3, 1 :: int])) [4, 2, 3]).
             s = 1 \<or> s = t"
    by (simp add: aligned_pairs_def)
  from broadcast_shape_is_target [OF r h, of Lvalue] show ?thesis
    by (simp add: numeral_3_eq_3)
qed

text \<open>
  Without the condition on the rank the statement fails: a child of shape \<open>(2, 3)\<close> and
  the target \<open>(3)\<close> have the one aligned pair \<open>(3, 3)\<close>, and no node is constructed.
\<close>

theorem broadcast_higher_rank_child:
  "aligned_pairs (x_shape (xarray [2, 3] [1, 2, 3, 4, 5, 6 :: int])) [3] = [(3, 3)] \<and>
   broadcast Lvalue (xarray [2, 3] [1, 2, 3, 4, 5, 6 :: int]) [3] = Terminated \<and>
   broadcast_initializer_list Lvalue (xarray [2, 3] [1, 2, 3, 4, 5, 6 :: int]) [3] = Terminated"
  by (simp add: aligned_pairs_def broadcast_def broadcast_initializer_list_def
      forward_shape_def xbroadcast_ctor_def xt_broadcast_shape_def)

text \<open>
  C2. A child of shape \<open>(3)\<close> broadcast to the shape \<open>(2)\<close>: the aligned pair \<open>(3, 2)\<close> is a
  mismatch and \<^verbatim>\<open>xt::broadcast_shape\<close> raises the error inside the constructor, at
  construction time. The constructor is declared \<^verbatim>\<open>noexcept\<close>, so the error does not
  reach the caller of \<open>broadcast\<close>: the program is terminated.
\<close>

theorem broadcast_mismatch_terminates:
  "xt_broadcast_shape (x_shape (xarray [3] [2, 3, 1 :: int])) [2] = Raised Broadcast_error \<and>
   broadcast Lvalue (xarray [3] [2, 3, 1 :: int]) [2] = Terminated \<and>
   broadcast Rvalue (xarray [3] [2, 3, 1 :: int]) [2] = Terminated \<and>
   broadcast_initializer_list Lvalue (xarray [3] [2, 3, 1 :: int]) [2] = Terminated"
  by (simp add: broadcast_def broadcast_initializer_list_def forward_shape_def
      xbroadcast_ctor_def xt_broadcast_shape_def)

section \<open>Trivial broadcasting is equality of shapes\<close>

lemma std_equal_same_length:
  "length xs = length ys \<Longrightarrow> std_equal xs ys = (xs = ys)"
  by (induction xs ys rule: std_equal.induct) auto

text \<open>
  C6. \<open>is_trivial_broadcast(strides)\<close> of a broadcast node is true exactly when the
  node has the dimension of its child, the shape of the node is element by element
  the shape of the child, and the child reports the strides as a trivial broadcast.
\<close>

theorem is_trivial_broadcast_iff:
  "is_trivial_broadcast n strides =
     (dimension n = x_dimension (child n) \<and>
      shape n = x_shape (child n) \<and>
      x_is_trivial_broadcast (child n) strides)"
  by (auto simp: is_trivial_broadcast_def dimension_def x_dimension_def shape_def
      std_equal_same_length)

section \<open>Ownership of the child\<close>

text \<open>
  C5. The overload for an initializer list applied to a named (lvalue) expression:
  it instantiates the node with \<^verbatim>\<open>LV = false\<close>, so the node holds a copy of the
  expression, where the overload for a shape container holds a reference to it.
\<close>

theorem initializer_list_copies_lvalue:
  "broadcast_initializer_list Lvalue (xarray [3] [2, 3, 1 :: int]) [2, 3] =
     Returned \<lparr>m_e = Owned_copy (xarray [3] [2, 3, 1]), m_shape = [2, 3]\<rparr> \<and>
   broadcast Lvalue (xarray [3] [2, 3, 1 :: int]) [2, 3] =
     Returned \<lparr>m_e = Const_reference (xarray [3] [2, 3, 1]), m_shape = [2, 3]\<rparr> \<and>
   broadcast Rvalue (xarray [3] [2, 3, 1 :: int]) [2, 3] =
     Returned \<lparr>m_e = Owned_copy (xarray [3] [2, 3, 1]), m_shape = [2, 3]\<rparr>"
  by (simp add: broadcast_def broadcast_initializer_list_def forward_shape_def
      xbroadcast_ctor_def xt_broadcast_shape_def)

section \<open>Element access\<close>

lemma child_update_shape [simp]: "child (n\<lparr>m_shape := s\<rparr>) = child n"
  by (simp add: child_def)

text \<open>
  \<open>operator()\<close> hands the child and the indices, unchanged, to the element-access
  helper, and \<open>operator[]\<close> hands the index container, unchanged, to \<open>operator[]\<close> of the
  child. Neither looks at the shape of the node: a node with any other shape over the
  same child gives the same answer, so the indices are neither translated nor
  checked against the broadcast shape. Which element of the child the helper picks
  for the indices is the helper's matter.
\<close>

lemma element_access_forwards:
  "call_operator get_element n args = get_element (child n) args \<and>
   index_operator n index = x_index (child n) index \<and>
   call_operator get_element (n\<lparr>m_shape := s\<rparr>) args = call_operator get_element n args \<and>
   index_operator (n\<lparr>m_shape := s\<rparr>) index = index_operator n index"
  by (simp add: call_operator_def index_operator_def)

section \<open>Iteration over a requested shape\<close>

text \<open>
  C10. For every shape \<open>s\<close>, \<open>xbegin\<close>, \<open>xend\<close>, \<open>cxbegin\<close>, \<open>cxend\<close>, \<open>stepper_begin\<close> and
  \<open>stepper_end\<close> return the cursor of the child over \<open>s\<close> (the iterators pair it with
  \<open>s\<close>). None of them has a failing outcome and none looks at the shape of the node:
  the same child under any other node shape gives the same cursor, so a shape that
  the node's shape does not broadcast to is accepted like any other.
\<close>

theorem shaped_iteration_unchecked:
  "stepper_begin n s = x_stepper_begin (child n) s \<and>
   stepper_end n s = x_stepper_end (child n) s \<and>
   xbegin n s = \<lparr>it_stepper = x_stepper_begin (child n) s, it_shape = s\<rparr> \<and>
   xend n s = \<lparr>it_stepper = x_stepper_end (child n) s, it_shape = s\<rparr> \<and>
   cxbegin n s = \<lparr>it_stepper = x_stepper_begin (child n) s, it_shape = s\<rparr> \<and>
   cxend n s = \<lparr>it_stepper = x_stepper_end (child n) s, it_shape = s\<rparr> \<and>
   stepper_begin (n\<lparr>m_shape := t\<rparr>) s = stepper_begin n s \<and>
   stepper_end (n\<lparr>m_shape := t\<rparr>) s = stepper_end n s \<and>
   xbegin (n\<lparr>m_shape := t\<rparr>) s = xbegin n s \<and>
   xend (n\<lparr>m_shape := t\<rparr>) s = xend n s \<and>
   cxbegin (n\<lparr>m_shape := t\<rparr>) s = cxbegin n s \<and>
   cxend (n\<lparr>m_shape := t\<rparr>) s = cxend n s"
  by (simp add: stepper_begin_def stepper_end_def xbegin_def xend_def cxbegin_def cxend_def)

lemma elements_unfold:
  "elements n =
     drain (x_deref (child n)) (x_step (child n)) (x_reset (child n)) (x_to_end (child n))
       (m_shape n)
       \<lparr>it_stepper = x_stepper_end (child n) (m_shape n), it_shape = m_shape n\<rparr>
       (x_stepper_begin (child n) (m_shape n)) (replicate (length (m_shape n)) 0)"
  by (simp add: elements_def iterate_def xbroadcast_begin_def xbroadcast_end_def cxbegin_def
      cxend_def stepper_begin_def stepper_end_def shape_def)

lemma elements_over_unfold:
  "elements_over n s =
     drain (x_deref (child n)) (x_step (child n)) (x_reset (child n)) (x_to_end (child n)) s
       \<lparr>it_stepper = x_stepper_end (child n) s, it_shape = s\<rparr>
       (x_stepper_begin (child n) s) (replicate (length s) 0)"
  by (simp add: elements_over_def iterate_def xbegin_def xend_def stepper_begin_def
      stepper_end_def)

lemma own_elements_unfold:
  "own_elements e =
     drain (x_deref e) (x_step e) (x_reset e) (x_to_end e) (x_shape e)
       \<lparr>it_stepper = x_stepper_end e (x_shape e), it_shape = x_shape e\<rparr>
       (x_stepper_begin e (x_shape e)) (replicate (length (x_shape e)) 0)"
  by (simp add: own_elements_def iterate_def)

lemmas xstepper_defs =
  xarray_stepper_def xstepper_deref_def xstepper_step_def xstepper_reset_def
  xstepper_to_end_def read_at_def stride_of_def row_major_backstrides_def

text \<open>
  An instance: a node of shape \<open>(2, 3)\<close> iterated over the shape \<open>(5)\<close>, to which \<open>(2, 3)\<close>
  does not broadcast. The iterators are handed out; the iteration meets the three
  stored elements and stops where the cursor reaches the end of the storage.
\<close>

lemma shaped_iteration_accepts_mismatch:
  "xt_broadcast_shape [2, 3] [5] = Raised Broadcast_error \<and>
   xbegin \<lparr>m_e = Const_reference (xarray [3] [2, 3, 1 :: int]), m_shape = [2, 3]\<rparr> [5] =
     \<lparr>it_stepper = xarray_stepper [3] [2, 3, 1] [5] 0, it_shape = [5]\<rparr> \<and>
   xend \<lparr>m_e = Const_reference (xarray [3] [2, 3, 1 :: int]), m_shape = [2, 3]\<rparr> [5] =
     \<lparr>it_stepper = xarray_stepper [3] [2, 3, 1] [5] 3, it_shape = [5]\<rparr> \<and>
   elements_over \<lparr>m_e = Const_reference (xarray [3] [2, 3, 1 :: int]), m_shape = [2, 3]\<rparr> [5] =
     Some [Some 2, Some 3, Some 1]"
  by (simp add: xt_broadcast_shape_def elements_over_unfold xbegin_def xend_def
      stepper_begin_def stepper_end_def child_def xstepper_defs drain.simps)

section \<open>Iteration in the shape of the node\<close>

text \<open>
  C3. A one-dimensional container of shape \<open>(3)\<close> with the values \<open>a, b, c\<close>, broadcast to
  the shape \<open>(2, 3)\<close>: the node has shape \<open>(2, 3)\<close> and dimension 2, and the iteration
  that starts at \<open>begin()\<close> reaches \<open>end()\<close> after it has met \<open>a, b, c, a, b, c\<close>, the whole
  row once per index of the leading dimension. The same holds for both value
  categories of the argument.
\<close>

theorem broadcast_replicates_rows:
  "\<exists>n. broadcast vc (xarray [3] [a, b, c]) [2, 3] = Returned n \<and>
       shape n = [2, 3] \<and> dimension n = 2 \<and>
       elements n = Some [Some a, Some b, Some c, Some a, Some b, Some c]"
  by (simp add: broadcast_def xbroadcast_ctor_def forward_shape_def xt_broadcast_shape_def
      shape_def dimension_def elements_unfold child_def xstepper_defs drain.simps
      numeral_2_eq_2 numeral_3_eq_3)

theorem broadcast_replicates_rows_witness:
  "\<exists>n. broadcast Lvalue (xarray [3] [2, 3, 1 :: int]) [2, 3] = Returned n \<and>
       shape n = [2, 3] \<and> dimension n = 2 \<and>
       elements n = Some [Some 2, Some 3, Some 1, Some 2, Some 3, Some 1]"
  by (rule broadcast_replicates_rows)

text \<open>
  The iteration reads \<open>end()\<close>: the same loop run to a stop iterator that equals the
  first one meets nothing.
\<close>

lemma iterate_empty_range: "iterate e first first = Some []"
  by (simp add: iterate_def drain.simps)

section \<open>Nested broadcasts\<close>

lemma pairs_transitive:
  "length xs \<le> length ys \<Longrightarrow> length ys \<le> length zs \<Longrightarrow>
   list_all (\<lambda>(s, t). s = 1 \<or> s = t) (zip xs ys) \<Longrightarrow>
   list_all (\<lambda>(s, t). s = 1 \<or> s = t) (zip ys zs) \<Longrightarrow>
   list_all (\<lambda>(s, t). s = (1::nat) \<or> s = t) (zip xs zs)"
proof (induction xs arbitrary: ys zs)
  case Nil
  then show ?case by simp
next
  case (Cons x xs)
  then obtain y ys' where ys: "ys = y # ys'" by (cases ys) auto
  with Cons.prems obtain z zs' where zs: "zs = z # zs'" by (cases zs) auto
  from Cons.prems ys zs have "list_all (\<lambda>(s, t). s = 1 \<or> s = t) (zip xs zs')"
    by (intro Cons.IH [of ys' zs']) auto
  moreover from Cons.prems ys zs have "x = 1 \<or> x = z" by auto
  ultimately show ?case using zs by simp
qed

lemma broadcastable_transitive:
  "broadcastable S T1 \<Longrightarrow> broadcastable T1 T2 \<Longrightarrow> broadcastable S T2"
  unfolding broadcastable_def aligned_pairs_def
  using pairs_transitive [of "rev S" "rev T1" "rev T2"] by simp

lemma broadcastable_rank: "broadcastable S T \<Longrightarrow> length S \<le> length T"
  by (simp add: broadcastable_def)

lemma broadcastable_pairs:
  "broadcastable S T \<Longrightarrow> \<forall>(s, t)\<in>set (aligned_pairs S T). s = 1 \<or> s = t"
  by (simp add: broadcastable_def list_all_iff)

lemma as_expression_simps [simp]:
  "x_shape (as_expression g n) = m_shape n"
  "x_deref (as_expression g n) = x_deref (child n)"
  "x_step (as_expression g n) = x_step (child n)"
  "x_reset (as_expression g n) = x_reset (child n)"
  "x_to_end (as_expression g n) = x_to_end (child n)"
  "x_stepper_begin (as_expression g n) s = x_stepper_begin (child n) s"
  "x_stepper_end (as_expression g n) s = x_stepper_end (child n) s"
  by (simp_all add: as_expression_def shape_def stepper_begin_def stepper_end_def)

text \<open>
  A node over a node over \<open>e\<close> and a node over \<open>e\<close> hand out the same cursors, those of
  \<open>e\<close>, and therefore run the same iteration over every requested shape, and from
  \<open>begin()\<close> to \<open>end()\<close> when their shapes agree. This rests on the delegation in
  \<open>stepper_begin\<close> and \<open>stepper_end\<close> alone.
\<close>

lemma nested_same_cursor:
  assumes c1: "child n1 = e"
    and c12: "child n12 = as_expression g n1"
    and c2: "child n2 = e"
  shows "stepper_begin n12 s = x_stepper_begin e s"
    and "stepper_end n12 s = x_stepper_end e s"
    and "xbegin n12 s = xbegin n2 s"
    and "xend n12 s = xend n2 s"
    and "elements_over n12 s = elements_over n2 s"
    and "m_shape n12 = m_shape n2 \<Longrightarrow> elements n12 = elements n2"
proof -
  show "stepper_begin n12 s = x_stepper_begin e s" using c1 c12 by (simp add: stepper_begin_def)
  show "stepper_end n12 s = x_stepper_end e s" using c1 c12 by (simp add: stepper_end_def)
  show "xbegin n12 s = xbegin n2 s" using c1 c12 c2 by (simp add: xbegin_def stepper_begin_def)
  show "xend n12 s = xend n2 s" using c1 c12 c2 by (simp add: xend_def stepper_end_def)
  show "elements_over n12 s = elements_over n2 s"
    using c1 c12 c2 by (simp add: elements_over_unfold)
  show "m_shape n12 = m_shape n2 \<Longrightarrow> elements n12 = elements n2"
    using c1 c12 c2 by (simp add: elements_unfold)
qed

text \<open>
  C4. When the shape of the child \<open>e\<close> broadcasts to \<open>T1\<close> and \<open>T1\<close> broadcasts to \<open>T2\<close>, the
  three nodes \<open>broadcast(e, T1)\<close>, \<open>broadcast(broadcast(e, T1), T2)\<close> and
  \<open>broadcast(e, T2)\<close> are constructed; the nested node and the direct one have the same
  shape and meet the same elements, from \<open>begin()\<close> to \<open>end()\<close> and over every requested
  shape; and the cursors of both broadcast layers are the cursors of \<open>e\<close> over the
  requested shape, of the one cursor type of \<open>e\<close>.
\<close>

theorem nested_broadcast_collapse:
  assumes "broadcastable (x_shape e) T1" and "broadcastable T1 T2"
  shows "\<exists>n1 n12 n2.
           broadcast vc1 e T1 = Returned n1 \<and>
           broadcast vc2 (as_expression g n1) T2 = Returned n12 \<and>
           broadcast vc3 e T2 = Returned n2 \<and>
           shape n12 = shape n2 \<and>
           elements n12 = elements n2 \<and>
           (\<forall>s. elements_over n12 s = elements_over n2 s) \<and>
           (\<forall>s. stepper_begin n1 s = x_stepper_begin e s \<and>
                stepper_end n1 s = x_stepper_end e s) \<and>
           (\<forall>s. stepper_begin n12 s = x_stepper_begin e s \<and>
                stepper_end n12 s = x_stepper_end e s)"
proof -
  from broadcast_compatible [OF broadcastable_rank [OF assms(1)] broadcastable_pairs [OF assms(1)]]
  obtain n1 where n1: "broadcast vc1 e T1 = Returned n1"
    and c1: "child n1 = e" and s1: "m_shape n1 = T1"
    by auto
  from assms(2) s1 have b12: "broadcastable (x_shape (as_expression g n1)) T2" by simp
  from broadcast_compatible [OF broadcastable_rank [OF b12] broadcastable_pairs [OF b12]]
  obtain n12 where n12: "broadcast vc2 (as_expression g n1) T2 = Returned n12"
    and c12: "child n12 = as_expression g n1" and s12: "m_shape n12 = T2"
    by auto
  from assms have b2: "broadcastable (x_shape e) T2" by (rule broadcastable_transitive)
  from broadcast_compatible [OF broadcastable_rank [OF b2] broadcastable_pairs [OF b2]]
  obtain n2 where n2: "broadcast vc3 e T2 = Returned n2"
    and c2: "child n2 = e" and s2: "m_shape n2 = T2"
    by auto
  note same = nested_same_cursor [OF c1 c12 c2]
  from s12 s2 have shapes: "m_shape n12 = m_shape n2" by simp
  have "shape n12 = shape n2 \<and> elements n12 = elements n2 \<and>
        (\<forall>s. elements_over n12 s = elements_over n2 s) \<and>
        (\<forall>s. stepper_begin n1 s = x_stepper_begin e s \<and>
             stepper_end n1 s = x_stepper_end e s) \<and>
        (\<forall>s. stepper_begin n12 s = x_stepper_begin e s \<and>
             stepper_end n12 s = x_stepper_end e s)"
    using c1 shapes
    by (simp add: same(1,2,5) same(6) [OF shapes] shape_def
        stepper_begin_def [of n1] stepper_end_def [of n1])
  with n1 n12 n2 show ?thesis
    by (intro exI [of _ n1] exI [of _ n12] exI [of _ n2]) simp
qed

theorem nested_broadcast_collapse_witness:
  "\<exists>n1 n12 n2.
     broadcast Lvalue (xarray [3] [2, 3, 1 :: int]) [2, 3] = Returned n1 \<and>
     broadcast Rvalue (as_expression x_call n1) [4, 2, 3] = Returned n12 \<and>
     broadcast Lvalue (xarray [3] [2, 3, 1 :: int]) [4, 2, 3] = Returned n2 \<and>
     shape n12 = shape n2 \<and>
     elements n12 = elements n2 \<and>
     (\<forall>s. elements_over n12 s = elements_over n2 s) \<and>
     (\<forall>s. stepper_begin n1 s = x_stepper_begin (xarray [3] [2, 3, 1 :: int]) s \<and>
          stepper_end n1 s = x_stepper_end (xarray [3] [2, 3, 1 :: int]) s) \<and>
     (\<forall>s. stepper_begin n12 s = x_stepper_begin (xarray [3] [2, 3, 1 :: int]) s \<and>
          stepper_end n12 s = x_stepper_end (xarray [3] [2, 3, 1 :: int]) s)"
proof -
  have h1: "broadcastable (x_shape (xarray [3] [2, 3, 1 :: int])) [2, 3]"
    by (simp add: broadcastable_def aligned_pairs_def)
  have h2: "broadcastable [2, 3] [4, 2, 3]"
    by (simp add: broadcastable_def aligned_pairs_def)
  show ?thesis by (rule nested_broadcast_collapse [OF h1 h2])
qed

text \<open>
  The nested node of this instance, iterated: the row is met eight times, and the
  iteration ends.
\<close>

lemma nested_broadcast_elements:
  "elements \<lparr>m_e = Owned_copy (as_expression x_call
              \<lparr>m_e = Const_reference (xarray [3] [2, 3, 1 :: int]), m_shape = [2, 3]\<rparr>),
            m_shape = [4, 2, 3]\<rparr> =
   Some (concat (replicate 8 [Some 2, Some 3, Some 1]))"
  by (simp add: elements_unfold child_def xstepper_defs drain.simps
      numeral_2_eq_2 numeral_3_eq_3 eval_nat_numeral)

section \<open>A dense container iterated in its own shape\<close>

lemma weight_length [simp]: "weight shp (length shp) = 1"
  by (simp add: weight_def)

lemma weight_0 [simp]: "weight shp 0 = prod_list shp"
  by (simp add: weight_def)

lemma weight_Suc: "i < length shp \<Longrightarrow> weight shp i = shp ! i * weight shp (Suc i)"
  by (simp add: weight_def flip: Cons_nth_drop_Suc)

lemma length_row_major_strides [simp]: "length (row_major_strides shp) = length shp"
  by (induction shp) simp_all

lemma nth_row_major_strides:
  "i < length shp \<Longrightarrow>
   row_major_strides shp ! i = (if shp ! i = 1 then 0 else weight shp (Suc i))"
proof (induction shp arbitrary: i)
  case Nil
  then show ?case by simp
next
  case (Cons n ns)
  then show ?case by (cases i) (simp_all add: weight_def)
qed

text \<open>Changing one index changes the position by the weight of its dimension.\<close>

lemma linear_index_update:
  assumes "i < length shp" and "length idx = length shp"
  shows "linear_index shp (idx[i := v]) + idx ! i * weight shp (Suc i) =
         linear_index shp idx + v * weight shp (Suc i)"
proof -
  let ?A = "{..<length shp}"
  have fin: "finite ?A" and mem: "i \<in> ?A" using assms by simp_all
  have rest: "(\<Sum>j\<in>?A - {i}. idx[i := v] ! j * weight shp (Suc j)) =
              (\<Sum>j\<in>?A - {i}. idx ! j * weight shp (Suc j))"
    by (rule sum.cong) simp_all
  have "linear_index shp (idx[i := v]) =
        v * weight shp (Suc i) + (\<Sum>j\<in>?A - {i}. idx ! j * weight shp (Suc j))"
    unfolding linear_index_def sum.remove [OF fin mem] rest using assms by simp
  moreover have "linear_index shp idx =
        idx ! i * weight shp (Suc i) + (\<Sum>j\<in>?A - {i}. idx ! j * weight shp (Suc j))"
    unfolding linear_index_def sum.remove [OF fin mem] by simp
  ultimately show ?thesis by simp
qed

lemma linear_index_zero:
  "\<forall>j<length shp. idx ! j = 0 \<Longrightarrow> linear_index shp idx = 0"
  by (simp add: linear_index_def)

lemma valid_index_zeros:
  assumes "0 < prod_list shp"
  shows "valid_index shp (replicate (length shp) 0)"
  unfolding valid_index_def
proof (intro conjI allI impI)
  show "length (replicate (length shp) 0) = length shp" by simp
next
  fix i assume i: "i < length shp"
  from assms have "prod_list shp \<noteq> 0" by simp
  then have "0 \<notin> set shp" by (simp add: prod_list_zero_iff)
  moreover from i have "shp ! i \<in> set shp" by simp
  ultimately have "shp ! i \<noteq> 0" by metis
  with i show "replicate (length shp) 0 ! i < shp ! i" by simp
qed

text \<open>The cursor of a container over its own shape: what the three moves do to it.\<close>

lemma own_step:
  "i < length shp \<Longrightarrow>
   xstepper_step (xarray_stepper shp dat shp p) i =
     xarray_stepper shp dat shp (p + row_major_strides shp ! i)"
  by (simp add: xstepper_step_def xarray_stepper_def stride_of_def)

lemma own_reset:
  "i < length shp \<Longrightarrow>
   xstepper_reset (xarray_stepper shp dat shp p) i =
     xarray_stepper shp dat shp (p - (shp ! i - 1) * row_major_strides shp ! i)"
  by (simp add: xstepper_reset_def xarray_stepper_def stride_of_def row_major_backstrides_def)

lemma own_to_end:
  "xstepper_to_end (xarray_stepper shp dat shp p) = xarray_stepper shp dat shp (length dat)"
  by (simp add: xstepper_to_end_def xarray_stepper_def)

lemma xarray_stepper_eq [simp]:
  "xarray_stepper shp dat s p = xarray_stepper shp dat s q \<longleftrightarrow> p = q"
  by (simp add: xarray_stepper_def)

text \<open>
  One increment of the iterator, entered with the dimensions from \<open>i\<close> on already set
  back to 0: the cursor moves on by the weight of dimension \<open>i - 1\<close>, and the index
  follows it as long as the position stays inside the storage. Entered with all
  dimensions, this is a move by one element.
\<close>

lemma increment_dense:
  assumes "i \<le> length shp" and "valid_index shp idx"
    and "\<forall>j. i \<le> j \<and> j < length shp \<longrightarrow> idx ! j = 0"
    and "length dat = prod_list shp"
  shows "\<exists>idx'. increment xstepper_step xstepper_reset xstepper_to_end shp i
                  (xarray_stepper shp dat shp (linear_index shp idx)) idx =
                (xarray_stepper shp dat shp (linear_index shp idx + weight shp i), idx') \<and>
              (linear_index shp idx + weight shp i < prod_list shp \<longrightarrow>
                 valid_index shp idx' \<and>
                 linear_index shp idx' = linear_index shp idx + weight shp i)"
  using assms
proof (induction i arbitrary: idx)
  case 0
  then have "linear_index shp idx = 0" by (simp add: linear_index_zero)
  with 0 show ?case by (simp add: own_to_end)
next
  case (Suc i)
  then have i: "i < length shp" and len: "length idx = length shp"
    and lt: "idx ! i < shp ! i"
    by (simp_all add: valid_index_def)
  let ?w = "weight shp (Suc i)"
  show ?case
  proof (cases "Suc (idx ! i) < shp ! i")
    case True
    then have stride: "row_major_strides shp ! i = ?w"
      using i by (simp add: nth_row_major_strides)
    let ?idx' = "idx[i := Suc (idx ! i)]"
    have lin: "linear_index shp ?idx' = linear_index shp idx + ?w"
      using linear_index_update [OF i len, of "Suc (idx ! i)"] by simp
    have valid: "valid_index shp ?idx'"
      unfolding valid_index_def
    proof (intro conjI allI impI)
      show "length ?idx' = length shp" using len by simp
    next
      fix j assume "j < length shp"
      with Suc.prems(2) True len show "?idx' ! j < shp ! j"
        by (cases "j = i") (simp_all add: valid_index_def)
    qed
    from True i stride lin valid show ?thesis
      by (intro exI [of _ ?idx']) (simp add: own_step)
  next
    case False
    with lt have top: "idx ! i = shp ! i - 1" by simp
    let ?idx1 = "idx[i := 0]"
    have bstr: "(shp ! i - 1) * row_major_strides shp ! i = idx ! i * ?w"
      using i top by (simp add: nth_row_major_strides)
    have lin1: "linear_index shp ?idx1 + idx ! i * ?w = linear_index shp idx"
      using linear_index_update [OF i len, of 0] by simp
    then have pos1: "linear_index shp idx - idx ! i * ?w = linear_index shp ?idx1" by simp
    have valid1: "valid_index shp ?idx1"
      unfolding valid_index_def
    proof (intro conjI allI impI)
      show "length ?idx1 = length shp" using len by simp
    next
      fix j assume j: "j < length shp"
      from lt have "0 < shp ! i" by simp
      with Suc.prems(2) j len show "?idx1 ! j < shp ! j"
        by (cases "j = i") (simp_all add: valid_index_def)
    qed
    have zeros1: "\<forall>j. i \<le> j \<and> j < length shp \<longrightarrow> ?idx1 ! j = 0"
    proof (intro allI impI)
      fix j assume "i \<le> j \<and> j < length shp"
      with Suc.prems(3) len show "?idx1 ! j = 0"
        by (cases "j = i") simp_all
    qed
    from i have "i \<le> length shp" by simp
    from Suc.IH [OF this valid1 zeros1 Suc.prems(4)]
    obtain idx' where
      inc: "increment xstepper_step xstepper_reset xstepper_to_end shp i
              (xarray_stepper shp dat shp (linear_index shp ?idx1)) ?idx1 =
            (xarray_stepper shp dat shp (linear_index shp ?idx1 + weight shp i), idx')"
      and ok: "linear_index shp ?idx1 + weight shp i < prod_list shp \<longrightarrow>
                 valid_index shp idx' \<and>
                 linear_index shp idx' = linear_index shp ?idx1 + weight shp i"
      by blast
    have "weight shp i = shp ! i * ?w" using i by (rule weight_Suc)
    also have "\<dots> = idx ! i * ?w + ?w" using top lt by (cases "shp ! i") simp_all
    finally have sum: "linear_index shp ?idx1 + weight shp i = linear_index shp idx + ?w"
      using lin1 by simp
    have "xstepper_reset (xarray_stepper shp dat shp (linear_index shp idx)) i =
          xarray_stepper shp dat shp (linear_index shp ?idx1)"
      unfolding own_reset [OF i] bstr pos1 ..
    with False inc ok sum show ?thesis
      by (intro exI [of _ idx']) simp
  qed
qed

text \<open>
  The loop from the cursor at position \<open>k\<close> to the end cursor meets the stored elements
  from \<open>k\<close> on, in storage order, and ends.
\<close>

lemma drain_dense:
  assumes len: "length dat = prod_list shp"
    and "k \<le> length dat"
    and "k < length dat \<longrightarrow> valid_index shp idx \<and> linear_index shp idx = k"
  shows "drain xstepper_deref xstepper_step xstepper_reset xstepper_to_end shp
           \<lparr>it_stepper = xarray_stepper shp dat shp (length dat), it_shape = shp\<rparr>
           (xarray_stepper shp dat shp k) idx =
         Some (map Some (drop k dat))"
  using assms(2,3)
proof (induction "length dat - k" arbitrary: k idx)
  case 0
  then have "k = length dat" by simp
  then show ?case by (subst drain.simps) simp
next
  case (Suc m)
  then have k: "k < length dat" and valid: "valid_index shp idx"
    and lin: "linear_index shp idx = k"
    by simp_all
  have "\<forall>j. length shp \<le> j \<and> j < length shp \<longrightarrow> idx ! j = 0" by simp
  from increment_dense [OF le_refl valid this len] lin
  obtain idx' where
    inc: "increment xstepper_step xstepper_reset xstepper_to_end shp (length shp)
            (xarray_stepper shp dat shp k) idx =
          (xarray_stepper shp dat shp (Suc k), idx')"
    and ok: "Suc k < prod_list shp \<longrightarrow> valid_index shp idx' \<and> linear_index shp idx' = Suc k"
    by auto
  from Suc.hyps(2) have m: "m = length dat - Suc k" by simp
  from k have le: "Suc k \<le> length dat" by simp
  from ok len have "Suc k < length dat \<longrightarrow> valid_index shp idx' \<and> linear_index shp idx' = Suc k"
    by simp
  from Suc.hyps(1) [OF m le this]
  have rest: "drain xstepper_deref xstepper_step xstepper_reset xstepper_to_end shp
           \<lparr>it_stepper = xarray_stepper shp dat shp (length dat), it_shape = shp\<rparr>
           (xarray_stepper shp dat shp (Suc k)) idx' =
         Some (map Some (drop (Suc k) dat))" .
  have here: "xstepper_deref (xarray_stepper shp dat shp k) = Some (dat ! k)"
    using k by (simp add: xstepper_deref_def xarray_stepper_def read_at_def)
  show ?case
    using k by (subst drain.simps) (simp add: inc rest here flip: Cons_nth_drop_Suc)
qed

text \<open>
  A container that stores as many elements as its shape has positions, iterated in its
  own shape from the cursor of \<open>stepper_begin\<close> to the cursor of \<open>stepper_end\<close>: the
  iteration ends and meets the stored elements in storage order.
\<close>

lemma own_elements_xarray:
  assumes "length dat = prod_list shp"
  shows "own_elements (xarray shp dat) = Some (map Some dat)"
proof -
  have "0 < length dat \<longrightarrow>
        valid_index shp (replicate (length shp) 0) \<and>
        linear_index shp (replicate (length shp) 0) = 0"
    using assms by (simp add: valid_index_zeros linear_index_zero)
  from drain_dense [OF assms _ this] show ?thesis
    by (simp add: own_elements_unfold)
qed

section \<open>Broadcasting an expression to its own shape\<close>

lemma same_pairs: "\<forall>(s, t)\<in>set (aligned_pairs S S). s = 1 \<or> s = t"
  by (auto simp: aligned_pairs_def zip_same)

text \<open>
  A node over \<open>e\<close> with the shape of \<open>e\<close>: its trivial-broadcast test is that of \<open>e\<close>, its
  \<open>begin()\<close> and \<open>end()\<close> are the iterators of the cursors of \<open>e\<close> over the shape of \<open>e\<close>, and
  its iteration is the iteration of \<open>e\<close> in its own shape.
\<close>

lemma own_shape_node:
  assumes "child n = e" and "m_shape n = x_shape e"
  shows "is_trivial_broadcast n strides = x_is_trivial_broadcast e strides"
    and "xbroadcast_begin n =
           \<lparr>it_stepper = x_stepper_begin e (x_shape e), it_shape = x_shape e\<rparr>"
    and "xbroadcast_end n =
           \<lparr>it_stepper = x_stepper_end e (x_shape e), it_shape = x_shape e\<rparr>"
    and "elements n = own_elements e"
  using assms
  by (simp_all add: is_trivial_broadcast_def dimension_def x_dimension_def
      std_equal_same_length xbroadcast_begin_def xbroadcast_end_def cxbegin_def cxend_def
      stepper_begin_def stepper_end_def shape_def elements_unfold own_elements_unfold)

text \<open>
  C7. For a child \<open>e\<close> that reports the strides \<open>strides\<close> as a trivial broadcast, both
  overloads of \<open>broadcast\<close> applied to \<open>e\<close> and the shape of \<open>e\<close> itself return a node for
  which \<open>is_trivial_broadcast(strides)\<close> is true, whose \<open>begin()\<close> and \<open>end()\<close> are the
  iterators of the cursors of \<open>e\<close> over the shape of \<open>e\<close>, and whose iteration from
  \<open>begin()\<close> to \<open>end()\<close> is the iteration of \<open>e\<close> in its own shape. For a dense
  container \<open>xarray shp dat\<close> that stores one element per position of its shape and its
  native strides, the iteration of the node ends and meets exactly the stored
  elements \<open>dat\<close>, in storage order, which is also what the container's own iteration
  meets.
\<close>

theorem broadcast_to_own_shape:
  assumes "x_is_trivial_broadcast e strides" and "length dat = prod_list shp"
  shows "(\<exists>n. broadcast vc e (x_shape e) = Returned n \<and>
              is_trivial_broadcast n strides \<and>
              xbroadcast_begin n =
                \<lparr>it_stepper = x_stepper_begin e (x_shape e), it_shape = x_shape e\<rparr> \<and>
              xbroadcast_end n =
                \<lparr>it_stepper = x_stepper_end e (x_shape e), it_shape = x_shape e\<rparr> \<and>
              elements n = own_elements e) \<and>
         (\<exists>n. broadcast_initializer_list vc e (x_shape e) = Returned n \<and>
              is_trivial_broadcast n strides \<and>
              xbroadcast_begin n =
                \<lparr>it_stepper = x_stepper_begin e (x_shape e), it_shape = x_shape e\<rparr> \<and>
              xbroadcast_end n =
                \<lparr>it_stepper = x_stepper_end e (x_shape e), it_shape = x_shape e\<rparr> \<and>
              elements n = own_elements e) \<and>
         (\<exists>n. broadcast vc (xarray shp dat) shp = Returned n \<and>
              is_trivial_broadcast n (map int (row_major_strides shp)) \<and>
              elements n = Some (map Some dat) \<and>
              own_elements (xarray shp dat) = Some (map Some dat))"
proof (intro conjI)
  from broadcast_compatible [OF le_refl same_pairs]
  obtain n where n: "broadcast vc e (x_shape e) = Returned n"
    and c: "child n = e" and s: "m_shape n = x_shape e"
    by auto
  note own = own_shape_node [OF c s]
  from n assms(1) show "\<exists>n. broadcast vc e (x_shape e) = Returned n \<and>
              is_trivial_broadcast n strides \<and>
              xbroadcast_begin n =
                \<lparr>it_stepper = x_stepper_begin e (x_shape e), it_shape = x_shape e\<rparr> \<and>
              xbroadcast_end n =
                \<lparr>it_stepper = x_stepper_end e (x_shape e), it_shape = x_shape e\<rparr> \<and>
              elements n = own_elements e"
    by (intro exI [of _ n]) (simp add: own)
next
  from broadcast_initializer_list_compatible [OF le_refl same_pairs]
  obtain n where n: "broadcast_initializer_list vc e (x_shape e) = Returned n"
    and c: "child n = e" and s: "m_shape n = x_shape e"
    by auto
  note own = own_shape_node [OF c s]
  from n assms(1) show "\<exists>n. broadcast_initializer_list vc e (x_shape e) = Returned n \<and>
              is_trivial_broadcast n strides \<and>
              xbroadcast_begin n =
                \<lparr>it_stepper = x_stepper_begin e (x_shape e), it_shape = x_shape e\<rparr> \<and>
              xbroadcast_end n =
                \<lparr>it_stepper = x_stepper_end e (x_shape e), it_shape = x_shape e\<rparr> \<and>
              elements n = own_elements e"
    by (intro exI [of _ n]) (simp add: own)
next
  let ?e = "xarray shp dat"
  have sh: "x_shape ?e = shp" by simp
  from broadcast_compatible [where e = ?e and vc = vc, OF le_refl same_pairs]
  obtain n where n: "broadcast vc ?e shp = Returned n"
    and c: "child n = ?e" and s: "m_shape n = x_shape ?e"
    by auto
  note own = own_shape_node [OF c s]
  have "x_is_trivial_broadcast ?e (map int (row_major_strides shp))"
    by (simp add: xarray_def)
  with n assms(2) show "\<exists>n. broadcast vc ?e shp = Returned n \<and>
              is_trivial_broadcast n (map int (row_major_strides shp)) \<and>
              elements n = Some (map Some dat) \<and>
              own_elements ?e = Some (map Some dat)"
    by (intro exI [of _ n]) (simp add: own own_elements_xarray)
qed

theorem broadcast_to_own_shape_witness:
  "(\<exists>n. broadcast Lvalue (xarray [3] [2, 3, 1 :: int]) [3] = Returned n \<and>
        is_trivial_broadcast n [1] \<and>
        xbroadcast_begin n = \<lparr>it_stepper = xarray_stepper [3] [2, 3, 1] [3] 0, it_shape = [3]\<rparr> \<and>
        xbroadcast_end n = \<lparr>it_stepper = xarray_stepper [3] [2, 3, 1] [3] 3, it_shape = [3]\<rparr> \<and>
        elements n = Some [Some 2, Some 3, Some 1]) \<and>
   (\<exists>n. broadcast Rvalue (xarray [2, 3] [1, 2, 3, 4, 5, 6 :: int]) [2, 3] = Returned n \<and>
        is_trivial_broadcast n [3, 1] \<and>
        elements n = Some [Some 1, Some 2, Some 3, Some 4, Some 5, Some 6] \<and>
        own_elements (xarray [2, 3] [1, 2, 3, 4, 5, 6 :: int]) =
          Some [Some 1, Some 2, Some 3, Some 4, Some 5, Some 6])"
proof -
  have h: "x_is_trivial_broadcast (xarray [3] [2, 3, 1 :: int]) [1]"
    by (simp add: xarray_def)
  have l3: "length [2, 3, 1 :: int] = prod_list [3]" by simp
  have l6: "length [1, 2, 3, 4, 5, 6 :: int] = prod_list [2, 3]" by simp
  from broadcast_to_own_shape [OF h l3, of Lvalue] own_elements_xarray [OF l3]
  have first: "\<exists>n. broadcast Lvalue (xarray [3] [2, 3, 1 :: int]) [3] = Returned n \<and>
        is_trivial_broadcast n [1] \<and>
        xbroadcast_begin n = \<lparr>it_stepper = xarray_stepper [3] [2, 3, 1] [3] 0, it_shape = [3]\<rparr> \<and>
        xbroadcast_end n = \<lparr>it_stepper = xarray_stepper [3] [2, 3, 1] [3] 3, it_shape = [3]\<rparr> \<and>
        elements n = Some [Some 2, Some 3, Some 1]"
    by (simp add: numeral_3_eq_3)
  from broadcast_to_own_shape [OF h l6, of Rvalue]
  have second: "\<exists>n. broadcast Rvalue (xarray [2, 3] [1, 2, 3, 4, 5, 6 :: int]) [2, 3] = Returned n \<and>
        is_trivial_broadcast n [3, 1] \<and>
        elements n = Some [Some 1, Some 2, Some 3, Some 4, Some 5, Some 6] \<and>
        own_elements (xarray [2, 3] [1, 2, 3, 4, 5, 6 :: int]) =
          Some [Some 1, Some 2, Some 3, Some 4, Some 5, Some 6]"
    by simp
  from first second show ?thesis by (rule conjI)
qed

end
